theory Spec2Isabelle
  imports Main
begin

section \<open>JavaScript values\<close>

text \<open>The exceptions that the embedded code can throw: an \<open>Error\<close> with its message, the
  \<open>TypeError\<close> of a property access on \<open>null\<close> or \<open>undefined\<close> and of a rejected \<open>fetch\<close>,
  and the \<open>SyntaxError\<close> of \<open>json()\<close> on a body that is not JSON.\<close>

datatype exn = Error string | TypeError | SyntaxError

text \<open>\<open>Response.ok\<close>: the status is in the range 200 to 299.\<close>

definition ok :: "nat \<Rightarrow> bool" where
  "ok st = (200 \<le> st \<and> st \<le> 299)"

text \<open>\<open>Array.prototype.join\<close> on an array of strings.\<close>

fun join :: "string \<Rightarrow> string list \<Rightarrow> string" where
  "join sep [] = []"
| "join sep [x] = x"
| "join sep (x # y # ys) = x @ sep @ join sep (y # ys)"

text \<open>\<open>Number.prototype.toString\<close> on a natural number: its decimal digits.\<close>

fun decimal :: "nat \<Rightarrow> string" where
  "decimal n =
     (if n < 10 then [''0123456789'' ! n]
      else decimal (n div 10) @ [''0123456789'' ! (n mod 10)])"

section \<open>Backend (backend/index.ts)\<close>

text \<open>
  The Express backend keeps its users in a module-level array, signs session tokens with
  the jsonwebtoken package, and forwards generation requests to a Stable Diffusion HTTP
  service. Each handler is embedded as a function from the request and the state it reads
  to the response and the effects it performs. JavaScript \<open>number\<close>s that only ever hold
  counters and HTTP status codes are \<open>int\<close> and \<open>nat\<close>: the counter \<open>lastId\<close> starts at 1
  and is only incremented, far below the range where doubles lose integer precision.
  Writes to the console are left out.
\<close>

subsection \<open>User storage\<close>

text \<open>\<open>interface User\<close>. The fields \<open>id\<close> and \<open>image\<close> carry a suffix, as both names are
  HOL constants.\<close>

record user =
  id_user :: int
  googleId :: string
  displayName :: string
  firstName :: string
  lastName :: string
  image_user :: string
  email :: string

text \<open>\<open>Omit<User, 'id'>\<close>, the argument of \<open>addUser\<close>.\<close>

record new_user =
  new_googleId :: string
  new_displayName :: string
  new_firstName :: string
  new_lastName :: string
  new_image :: string
  new_email :: string

text \<open>The two module-level variables \<open>lastId\<close> and \<open>users\<close>.\<close>

record store =
  lastId :: int
  users :: "user list"

definition initial_store :: store where
  "initial_store = \<lparr>lastId = 1, users = []\<rparr>"

definition findUserByGoogleId :: "store \<Rightarrow> string \<Rightarrow> user option" where
  "findUserByGoogleId st g = find (\<lambda>u. googleId u = g) (users st)"

definition findUserById :: "store \<Rightarrow> int \<Rightarrow> user option" where
  "findUserById st i = find (\<lambda>u. id_user u = i) (users st)"

text \<open>\<open>{ ...user, id: lastId++ }\<close> reads the counter, then increments it; \<open>push\<close> appends.\<close>

definition addUser :: "store \<Rightarrow> new_user \<Rightarrow> user \<times> store" where
  "addUser st nu =
     (let newUser = \<lparr>id_user = lastId st, googleId = new_googleId nu,
                      displayName = new_displayName nu, firstName = new_firstName nu,
                      lastName = new_lastName nu, image_user = new_image nu,
                      email = new_email nu\<rparr>
      in (newUser, st\<lparr>lastId := lastId st + 1, users := users st @ [newUser]\<rparr>))"

text \<open>An invariant of the store, used in the proofs: the ids of the records are pairwise
  distinct and all below the counter.\<close>

definition ids_fresh :: "store \<Rightarrow> bool" where
  "ids_fresh st =
     (distinct (map id_user (users st)) \<and> list_all (\<lambda>u. id_user u < lastId st) (users st))"

subsection \<open>Passport verify callback\<close>

text \<open>The part of passport's \<open>Profile\<close> that the callback reads. \<open>name\<close>, \<open>photos\<close> and
  \<open>emails\<close> are optional; a photo or an email is represented by its \<open>value\<close>.\<close>

record profile_name =
  givenName :: "string option"
  familyName :: "string option"

record profile =
  profile_id :: string
  profile_displayName :: string
  profile_name :: "profile_name option"
  photos :: "string list option"
  emails :: "string list option"

text \<open>\<open>x || ''\<close> on a string that may be undefined.\<close>

definition or_empty :: "string option \<Rightarrow> string" where
  "or_empty x = (case x of None \<Rightarrow> [] | Some s \<Rightarrow> s)"

text \<open>\<open>xs?.[0]?.value\<close>: undefined when the array is absent or empty.\<close>

definition first_value :: "string list option \<Rightarrow> string option" where
  "first_value xs = (case xs of None \<Rightarrow> None | Some [] \<Rightarrow> None | Some (x # _) \<Rightarrow> Some x)"

text \<open>The strategy's verify callback; the user handed to \<open>done(null, _)\<close> is the result.\<close>

definition verify_callback :: "store \<Rightarrow> profile \<Rightarrow> user \<times> store" where
  "verify_callback st p =
     (case findUserByGoogleId st (profile_id p) of
        Some user \<Rightarrow> (user, st)
      | None \<Rightarrow>
          addUser st
            \<lparr>new_googleId = profile_id p,
             new_displayName = profile_displayName p,
             new_firstName = or_empty (Option.bind (profile_name p) givenName),
             new_lastName = or_empty (Option.bind (profile_name p) familyName),
             new_image = or_empty (first_value (photos p)),
             new_email = or_empty (first_value (emails p))\<rparr>)"

text \<open>A run of callbacks, one per sign-in, in order.\<close>

fun run_callbacks :: "store \<Rightarrow> profile list \<Rightarrow> store" where
  "run_callbacks st [] = st"
| "run_callbacks st (p # ps) = run_callbacks (snd (verify_callback st p)) ps"

subsection \<open>Session tokens\<close>

text \<open>
  Modelled from the spec: \<open>jwt.sign\<close> and \<open>jwt.verify\<close> belong to the jsonwebtoken package,
  which is not part of the repository. The spec describes a token as a signed payload
  carrying only the local user id, valid by signature plus an optional expiry claim, and
  verification as checking the signature (and the expiry if configured) and signalling a
  failure for a bad signature, a malformed payload or an expired token. The model is
  symbolic: a signature is the term \<open>HMAC key claims\<close>, so two signatures agree exactly
  when key and signed content agree, and a cookie value that does not parse as a compact
  token is \<open>Opaque\<close> with its text. Times are seconds.
\<close>

text \<open>Modelled from the spec: the claims inside a token, the user id and the optional
  expiry time.\<close>

record jwt_claims =
  claim_id :: int
  claim_exp :: "nat option"

text \<open>Modelled from the spec: the signature the package computes over the claims with a
  key, as a term.\<close>

datatype signature = HMAC string jwt_claims

text \<open>Modelled from the spec: the value of the \<open>authorization\<close> cookie, seen through the
  parser of the package. \<open>Opaque []\<close> is the empty string.\<close>

datatype token = Compact jwt_claims signature | Opaque string

text \<open>Modelled from the spec: the failures of a verification.\<close>

datatype jwt_error = Malformed | InvalidSignature | TokenExpired

text \<open>\<open>interface TokenPayload\<close>.\<close>

record token_payload =
  payload_id :: int

text \<open>Modelled from the spec: \<open>jwt.sign(payload, secret, options)\<close> at time \<open>now\<close>; the
  only option is \<open>expiresIn\<close>, in seconds.\<close>

definition jwt_sign :: "token_payload \<Rightarrow> string \<Rightarrow> nat option \<Rightarrow> nat \<Rightarrow> token" where
  "jwt_sign payload secret expiresIn now =
     (let claims = \<lparr>claim_id = payload_id payload,
                     claim_exp = map_option (\<lambda>d. now + d) expiresIn\<rparr>
      in Compact claims (HMAC secret claims))"

text \<open>Modelled from the spec: \<open>jwt.verify(token, secret, callback)\<close> at time \<open>now\<close>; the
  callback receives either an error or the decoded payload.\<close>

definition jwt_verify :: "token \<Rightarrow> string \<Rightarrow> nat \<Rightarrow> jwt_error + token_payload" where
  "jwt_verify tok secret now =
     (case tok of
        Opaque _ \<Rightarrow> Inl Malformed
      | Compact claims sg \<Rightarrow>
          if sg \<noteq> HMAC secret claims then Inl InvalidSignature
          else (case claim_exp claims of
                  None \<Rightarrow> Inr \<lparr>payload_id = claim_id claims\<rparr>
                | Some e \<Rightarrow>
                    if e \<le> now then Inl TokenExpired
                    else Inr \<lparr>payload_id = claim_id claims\<rparr>))"

definition JWT_SECRET :: string where
  "JWT_SECRET = ''MY_SECRET''"

text \<open>\<open>jwt.sign(payload, JWT_SECRET)\<close>: no options are passed.\<close>

definition createAccessToken :: "nat \<Rightarrow> int \<Rightarrow> token" where
  "createAccessToken now userId = jwt_sign \<lparr>payload_id = userId\<rparr> JWT_SECRET None now"

text \<open>The promise resolves with \<open>null\<close> on an error and with the payload otherwise; it is
  never rejected.\<close>

definition getTokenPayload :: "nat \<Rightarrow> token \<Rightarrow> token_payload option" where
  "getTokenPayload now tok =
     (case jwt_verify tok JWT_SECRET now of
        Inl error \<Rightarrow> None
      | Inr payload \<Rightarrow> Some payload)"

text \<open>The handler of \<open>GET /callback\<close> once passport has run the verify callback for the
  profile: it issues a token for the user, sets it as the \<open>authorization\<close> cookie and
  redirects to the frontend. The result is the cookie, the redirect target and the
  store.\<close>

definition callback :: "nat \<Rightarrow> store \<Rightarrow> profile \<Rightarrow> (token \<times> string) \<times> store" where
  "callback now st p =
     (let (user, st') = verify_callback st p;
          token = createAccessToken now (id_user user)
      in ((token, ''http://localhost:8080''), st'))"

subsection \<open>Requests and responses\<close>

text \<open>The JSON body of \<open>POST /generate-pokemon\<close>, with the declared shape
  \<open>{name, description?, animalTypes: string[], abilities: string[]}\<close>. A field that is
  missing (or \<open>null\<close>) is \<open>None\<close>.\<close>

record generate_body =
  req_name :: "string option"
  req_description :: "string option"
  req_animalTypes :: "string list option"
  req_abilities :: "string list option"

text \<open>What a handler can read of a request: the \<open>authorization\<close> cookie and the body.\<close>

record request =
  cookie_authorization :: "token option"
  req_body :: generate_body

text \<open>\<open>express.json()\<close> leaves \<open>req.body\<close> as \<open>{}\<close> when a request carries no JSON.\<close>

definition no_body :: generate_body where
  "no_body = \<lparr>req_name = None, req_description = None, req_animalTypes = None,
              req_abilities = None\<rparr>"

datatype json_body =
    ErrorBody string
  | GenerateBody bool string string
  | UserBody user

record response =
  status :: nat
  res_body :: json_body

subsection \<open>The generation endpoint\<close>

text \<open>The JSON sent to \<open>/sdapi/v1/txt2img\<close> and the \<open>fetch\<close> call that carries it.\<close>

record txt2img =
  prompt :: string
  negative_prompt :: string
  steps :: nat
  width :: nat
  height :: nat
  cfg_scale :: nat
  sampler_name :: string

record fetch_call =
  fetch_url :: string
  fetch_method :: string
  fetch_json :: txt2img

text \<open>What the awaited \<open>fetch\<close> and \<open>sdResponse.json()\<close> can produce: the promise is
  rejected (network failure), or a response arrives with a status and a body that is not
  JSON, is \<open>null\<close>, or is an object whose \<open>images\<close> field may be missing.\<close>

datatype sd_json = NotJson | JsonNull | JsonObject "string list option"

datatype sd_outcome = Rejected | Responded nat sd_json

text \<open>\<open>!name\<close> on a string that may be undefined: true for undefined and for \<open>''\<close>.\<close>

definition falsy :: "string option \<Rightarrow> bool" where
  "falsy s = (case s of None \<Rightarrow> True | Some v \<Rightarrow> v = [])"

definition build_prompt :: "string \<Rightarrow> string list \<Rightarrow> string list \<Rightarrow> string" where
  "build_prompt name animalTypes abilities =
     ''A pokemon creature named '' @ name @ '' that combines '' @ join '' and '' animalTypes
     @ '', with '' @ join '', '' abilities
     @ '' powers, colorful, digital art, high quality, pokemon style, fantasy art''"

definition negativePrompt :: string where
  "negativePrompt = ''ugly, blurry, low quality, distorted, disfigured, bad anatomy''"

definition sd_call :: "string \<Rightarrow> fetch_call" where
  "sd_call p =
     \<lparr>fetch_url = ''http://stable-diffusion.42malaga.com:7860/sdapi/v1/txt2img'',
      fetch_method = ''POST'',
      fetch_json = \<lparr>prompt = p, negative_prompt = negativePrompt, steps = 20, width = 512,
                    height = 512, cfg_scale = 7, sampler_name = ''Euler a''\<rparr>\<rparr>"

text \<open>What follows the \<open>fetch\<close> inside the \<open>try\<close> block: every \<open>throw\<close> is an \<open>Inl\<close>.\<close>

definition sd_result :: "string \<Rightarrow> sd_outcome \<Rightarrow> exn + response" where
  "sd_result p out =
     (case out of
        Rejected \<Rightarrow> Inl TypeError
      | Responded st js \<Rightarrow>
          if \<not> ok st then Inl (Error (''Stable Diffusion API error: '' @ decimal st))
          else (case js of
                  NotJson \<Rightarrow> Inl SyntaxError
                | JsonNull \<Rightarrow> Inl TypeError
                | JsonObject None \<Rightarrow> Inl (Error ''No images generated'')
                | JsonObject (Some []) \<Rightarrow> Inl (Error ''No images generated'')
                | JsonObject (Some (img # _)) \<Rightarrow>
                    Inr \<lparr>status = 200,
                         res_body = GenerateBody True (''data:image/png;base64,'' @ img) p\<rparr>))"

text \<open>The handler of \<open>POST /generate-pokemon\<close>. It returns the response together with the
  outbound calls it made, in order. \<open>out\<close> is the answer of the external service to the
  one call, should the handler make it. The \<open>catch\<close> turns every exception into the 500
  response.\<close>

definition generate_pokemon :: "sd_outcome \<Rightarrow> request \<Rightarrow> response \<times> fetch_call list" where
  "generate_pokemon out req =
     (let name = req_name (req_body req);
          animalTypes = req_animalTypes (req_body req);
          abilities = req_abilities (req_body req)
      in if falsy name \<or> animalTypes = None \<or> abilities = None then
           (\<lparr>status = 400, res_body = ErrorBody ''Missing required fields''\<rparr>, [])
         else
           (let p = build_prompt (the name) (the animalTypes) (the abilities) in
            (case sd_result p out of
               Inr res \<Rightarrow> (res, [sd_call p])
             | Inl error \<Rightarrow>
                 (\<lparr>status = 500, res_body = ErrorBody ''Failed to generate pokemon image''\<rparr>,
                  [sd_call p]))))"

subsection \<open>The session-guarded profile endpoint\<close>

text \<open>\<open>!token\<close> on the cookie value: true when the cookie is absent and when it is the
  empty string.\<close>

definition no_token :: "token option \<Rightarrow> bool" where
  "no_token c = (case c of None \<Rightarrow> True | Some tok \<Rightarrow> tok = Opaque [])"

text \<open>The handler of \<open>GET /user-profile\<close> at time \<open>now\<close>. It returns the response and the
  store it leaves behind.\<close>

definition user_profile :: "nat \<Rightarrow> store \<Rightarrow> request \<Rightarrow> response \<times> store" where
  "user_profile now st req =
     (let token = cookie_authorization req in
      if no_token token then
        (\<lparr>status = 401, res_body = ErrorBody ''Not authenticated''\<rparr>, st)
      else
        (case getTokenPayload now (the token) of
           None \<Rightarrow> (\<lparr>status = 401, res_body = ErrorBody ''Invalid token''\<rparr>, st)
         | Some payload \<Rightarrow>
             (case findUserById st (payload_id payload) of
                None \<Rightarrow> (\<lparr>status = 401, res_body = ErrorBody ''User not found''\<rparr>, st)
              | Some user \<Rightarrow> (\<lparr>status = 200, res_body = UserBody user\<rparr>, st))))"


section \<open>Frontend (src/pokemon-creator.ts)\<close>

text \<open>
  The class \<open>PokemonCreator\<close> is embedded as a record of its private fields together with
  the parts of the page its methods read and write; every method is a function on that
  record. A notification is the translation key and the parameters handed to
  \<open>i18next.t\<close>, since the translation tables are not part of the sources.
\<close>

text \<open>\<open>interface Pokemon\<close>; \<open>createdAt\<close> is the clock reading in milliseconds.\<close>

record pokemon =
  id_pokemon :: string
  name :: string
  animalTypes :: "string list"
  abilities :: "string list"
  imageUrl :: "string option"
  createdAt :: nat

definition ANIMAL_TYPES :: "string list" where
  "ANIMAL_TYPES = [''Dragon'', ''Cat'', ''Dog'', ''Bird'', ''Fish'', ''Snake'',
                   ''Tiger'', ''Bear'', ''Wolf'', ''Fox'', ''Rabbit'', ''Mouse'']"

definition ABILITIES :: "string list" where
  "ABILITIES = [''Fire'', ''Water'', ''Electric'', ''Grass'', ''Ice'', ''Flying'',
                ''Psychic'', ''Dark'', ''Steel'', ''Ghost'', ''Dragon'', ''Fairy'']"

text \<open>\<open>i18next.t(key, params)\<close>: the key and the interpolation parameters.\<close>

datatype param = Num nat | Str string

datatype message = T string "(string \<times> param) list"

subsection \<open>The multi-select element\<close>

text \<open>A \<open><select multiple>\<close>: its options in tree order, each with its value and its
  selectedness.\<close>

record select_el =
  options :: "(string \<times> bool) list"

definition new_select :: "string list \<Rightarrow> select_el" where
  "new_select vs = \<lparr>options = map (\<lambda>v. (v, False)) vs\<rparr>"

text \<open>\<open>Array.from(select.selectedOptions).map(opt => opt.value)\<close>.\<close>

definition selectedOptions :: "select_el \<Rightarrow> string list" where
  "selectedOptions sel = map fst (filter snd (options sel))"

text \<open>\<open>select.selectedIndex\<close>: the index of the first selected option in tree order, and
  \<open>-1\<close> when no option is selected.\<close>

fun first_selected :: "(string \<times> bool) list \<Rightarrow> nat option" where
  "first_selected [] = None"
| "first_selected ((v, s) # xs) = (if s then Some 0 else map_option Suc (first_selected xs))"

definition selectedIndex :: "select_el \<Rightarrow> int" where
  "selectedIndex sel = (case first_selected (options sel) of None \<Rightarrow> - 1 | Some i \<Rightarrow> int i)"

text \<open>\<open>select.options[i].selected = false\<close>: outside the range \<open>select.options[i]\<close> is
  undefined and the assignment throws.\<close>

definition deselect :: "int \<Rightarrow> select_el \<Rightarrow> exn + select_el" where
  "deselect i sel =
     (if 0 \<le> i \<and> nat i < length (options sel) then
        Inr (sel\<lparr>options := (options sel)[nat i := (fst (options sel ! nat i), False)]\<rparr>)
      else Inl TypeError)"

text \<open>What the browser does on a control-click on option \<open>i\<close>, before it fires \<open>change\<close>:
  the selectedness of that option flips.\<close>

definition ctrl_click :: "nat \<Rightarrow> select_el \<Rightarrow> select_el" where
  "ctrl_click i sel =
     (if i < length (options sel) then
        sel\<lparr>options := (options sel)[i := (fst (options sel ! i), \<not> snd (options sel ! i))]\<rparr>
      else sel)"

subsection \<open>The component state\<close>

record creator =
  selectedAnimals :: "string list"
  selectedAbilities :: "string list"
  generatedPokemons :: "pokemon list"
  isGenerating :: bool
  name_input :: string
  description_input :: string
  animal_select :: select_el
  ability_select :: select_el
  btn_disabled :: bool
  btn_text :: message
  btn_busy :: bool
  gallery_content :: "pokemon list"
  toasts :: "message list"

text \<open>The state after the constructor has rendered the page.\<close>

definition new_creator :: creator where
  "new_creator =
     \<lparr>selectedAnimals = [], selectedAbilities = [], generatedPokemons = [],
      isGenerating = False, name_input = [], description_input = [],
      animal_select = new_select ANIMAL_TYPES, ability_select = new_select ABILITIES,
      btn_disabled = False, btn_text = T ''form.generate'' [], btn_busy = False,
      gallery_content = [], toasts = []\<rparr>"

text \<open>\<open>showToast\<close>: the list keeps every message shown, the latest last.\<close>

definition showToast :: "message \<Rightarrow> creator \<Rightarrow> creator" where
  "showToast m st = st\<lparr>toasts := toasts st @ [m]\<rparr>"

text \<open>A \<open>Set<string>\<close> is the list of its elements in insertion order; \<open>add\<close> leaves the set
  alone when the element is already there.\<close>

definition set_add :: "string \<Rightarrow> string list \<Rightarrow> string list" where
  "set_add x s = (if x \<in> set s then s else s @ [x])"

subsection \<open>createMultiSelect\<close>

text \<open>The \<open>config\<close> argument, without its \<open>label\<close>, which only goes into the page.\<close>

record multi_select_config =
  config_id :: string
  config_options :: "string list"
  maxSelections :: nat
  onSelectionChange :: "string list \<Rightarrow> creator \<Rightarrow> creator"

text \<open>\<open>clear()\<close> followed by \<open>forEach(add)\<close>.\<close>

definition createAnimalTypeSelector :: multi_select_config where
  "createAnimalTypeSelector =
     \<lparr>config_id = ''animal-types'', config_options = ANIMAL_TYPES, maxSelections = 2,
      onSelectionChange = (\<lambda>selected st. st\<lparr>selectedAnimals := fold set_add selected []\<rparr>)\<rparr>"

definition createAbilitySelector :: multi_select_config where
  "createAbilitySelector =
     \<lparr>config_id = ''abilities'', config_options = ABILITIES, maxSelections = 3,
      onSelectionChange = (\<lambda>selected st. st\<lparr>selectedAbilities := fold set_add selected []\<rparr>)\<rparr>"

text \<open>The element a listener is attached to, found by the id its config gave it.\<close>

definition get_select :: "string \<Rightarrow> creator \<Rightarrow> select_el" where
  "get_select ident st =
     (if ident = ''animal-types'' then animal_select st else ability_select st)"

definition put_select :: "string \<Rightarrow> select_el \<Rightarrow> creator \<Rightarrow> creator" where
  "put_select ident sel st =
     (if ident = ''animal-types'' then st\<lparr>animal_select := sel\<rparr>
      else st\<lparr>ability_select := sel\<rparr>)"

text \<open>The \<open>change\<close> listener. \<open>selectedOptions\<close> is read once, before the listener touches
  the element.\<close>

definition change_listener :: "multi_select_config \<Rightarrow> creator \<Rightarrow> exn + creator" where
  "change_listener config st =
     (let select = get_select (config_id config) st;
          selected = selectedOptions select;
          messageKey = (if config_id config = ''animal-types'' then ''validation.maxAnimals''
                        else ''validation.maxAbilities'')
      in case (if length selected > maxSelections config then
                 (case deselect (selectedIndex select) select of
                    Inl e \<Rightarrow> Inl e
                  | Inr select' \<Rightarrow>
                      Inr (showToast (T messageKey [(''max'', Num (maxSelections config))])
                             (put_select (config_id config) select' st)))
               else Inr st) of
           Inl e \<Rightarrow> Inl e
         | Inr st' \<Rightarrow>
             Inr (onSelectionChange config (take (maxSelections config) selected) st'))"

text \<open>A control-click on option \<open>i\<close> of a picker, followed by its \<open>change\<close> event.\<close>

definition pick :: "multi_select_config \<Rightarrow> nat \<Rightarrow> creator \<Rightarrow> exn + creator" where
  "pick config i st =
     change_listener config
       (put_select (config_id config) (ctrl_click i (get_select (config_id config) st)) st)"

subsection \<open>generatePokemon\<close>

text \<open>\<open>String.prototype.trim\<close>, with the white space of ASCII: tab, line feed, vertical
  tab, form feed, carriage return and space.\<close>

definition is_space :: "char \<Rightarrow> bool" where
  "is_space c = (c \<in> set [CHR 0x09, CHR 0x0A, CHR 0x0B, CHR 0x0C, CHR 0x0D, CHR 0x20])"

definition trim :: "string \<Rightarrow> string" where
  "trim s = rev (dropWhile is_space (rev (dropWhile is_space s)))"

text \<open>What the awaited \<open>fetch\<close> and \<open>response.json()\<close> can produce on the client: the
  promise is rejected, or a response arrives with a status and a body that is not JSON,
  is \<open>null\<close>, or is an object whose \<open>imageUrl\<close> field may be missing.\<close>

datatype api_json = ApiNotJson | ApiNull | ApiObject "string option"

datatype api_outcome = ApiRejected | ApiResponded nat api_json

text \<open>How a response of the backend looks to the client.\<close>

definition deliver :: "response \<Rightarrow> api_outcome" where
  "deliver res =
     ApiResponded (status res)
       (case res_body res of
          GenerateBody success url p \<Rightarrow> ApiObject (Some url)
        | ErrorBody e \<Rightarrow> ApiObject None
        | UserBody u \<Rightarrow> ApiObject None)"

text \<open>\<open>updateGallery\<close> renders one card per entry, in the order of the list.\<close>

definition updateGallery :: "creator \<Rightarrow> creator" where
  "updateGallery st = st\<lparr>gallery_content := generatedPokemons st\<rparr>"

text \<open>\<open>resetForm\<close>; setting \<open>selectedIndex\<close> to \<open>-1\<close> deselects every option.\<close>

definition deselect_all :: "select_el \<Rightarrow> select_el" where
  "deselect_all sel = sel\<lparr>options := map (\<lambda>(v, s). (v, False)) (options sel)\<rparr>"

definition resetForm :: "creator \<Rightarrow> creator" where
  "resetForm st =
     st\<lparr>name_input := [], description_input := [],
        animal_select := deselect_all (animal_select st),
        ability_select := deselect_all (ability_select st),
        selectedAnimals := [], selectedAbilities := []\<rparr>"

text \<open>The request in flight while \<open>generatePokemon\<close> is suspended at its \<open>await\<close>: the
  entry under construction and the JSON body sent to \<open>/generate-pokemon\<close>.\<close>

record pending =
  pending_pokemon :: pokemon
  pending_request :: generate_body

text \<open>\<open>generatePokemon\<close> up to the \<open>fetch\<close>, at clock reading \<open>now\<close>: the entry guard, the
  three validations, the locking of the button and the request.\<close>

definition submit :: "nat \<Rightarrow> creator \<Rightarrow> pending option \<times> creator" where
  "submit now st =
     (if isGenerating st then (None, st)
      else
        (let nm = trim (name_input st);
             description = trim (description_input st)
         in if nm = [] then (None, showToast (T ''validation.nameRequired'' []) st)
            else if selectedAnimals st = [] then
              (None, showToast (T ''validation.selectAnimalType'' []) st)
            else if selectedAbilities st = [] then
              (None, showToast (T ''validation.selectAbility'' []) st)
            else
              (let pk = \<lparr>id_pokemon = decimal now, name = nm,
                         animalTypes = selectedAnimals st,
                         abilities = selectedAbilities st,
                         imageUrl = None, createdAt = now\<rparr>
               in (Some \<lparr>pending_pokemon = pk,
                         pending_request =
                           \<lparr>req_name = Some nm, req_description = Some description,
                            req_animalTypes = Some (animalTypes pk),
                            req_abilities = Some (abilities pk)\<rparr>\<rparr>,
                   st\<lparr>isGenerating := True, btn_disabled := True,
                      btn_text := T ''form.generating'' [], btn_busy := True\<rparr>))))"

text \<open>The rest of the \<open>try\<close> block, once the \<open>fetch\<close> has settled with \<open>out\<close>.\<close>

definition received :: "api_outcome \<Rightarrow> pokemon \<Rightarrow> creator \<Rightarrow> exn + creator" where
  "received out pk st =
     (case out of
        ApiRejected \<Rightarrow> Inl TypeError
      | ApiResponded code js \<Rightarrow>
          if \<not> ok code then Inl (Error ''Failed to generate Pokemon image'')
          else (case js of
                  ApiNotJson \<Rightarrow> Inl SyntaxError
                | ApiNull \<Rightarrow> Inl TypeError
                | ApiObject url \<Rightarrow>
                    Inr (showToast (T ''messages.created'' [(''name'', Str (name pk))])
                          (resetForm
                            (updateGallery
                              (st\<lparr>generatedPokemons :=
                                    pk\<lparr>imageUrl := url\<rparr> # generatedPokemons st\<rparr>))))))"

text \<open>The \<open>catch\<close> and the \<open>finally\<close> around it.\<close>

definition complete :: "api_outcome \<Rightarrow> pokemon \<Rightarrow> creator \<Rightarrow> creator" where
  "complete out pk st =
     (let st' = (case received out pk st of
                   Inl error \<Rightarrow> showToast (T ''messages.generationFailed'' []) st
                 | Inr done \<Rightarrow> done)
      in st'\<lparr>isGenerating := False, btn_disabled := False,
             btn_text := T ''form.generate'' [], btn_busy := False\<rparr>)"

text \<open>One click on the generate button, run to its end with the answer \<open>out\<close>.\<close>

definition generatePokemon :: "nat \<Rightarrow> api_outcome \<Rightarrow> creator \<Rightarrow> creator" where
  "generatePokemon now out st =
     (case submit now st of
        (None, st') \<Rightarrow> st'
      | (Some p, st') \<Rightarrow> complete out (pending_pokemon p) st')"

text \<open>A sequence of control-clicks on one picker, each followed by its \<open>change\<close> event;
  an exception that escapes a listener ends the sequence.\<close>

fun picks :: "multi_select_config \<Rightarrow> nat list \<Rightarrow> creator \<Rightarrow> exn + creator" where
  "picks config [] st = Inr st"
| "picks config (i # is) st =
     (case pick config i st of Inl e \<Rightarrow> Inl e | Inr st' \<Rightarrow> picks config is st')"

section \<open>Client and backend together\<close>

text \<open>One click on the generate button with the backend behind the \<open>fetch\<close>: the request
  built by \<open>submit\<close> goes to the handler of \<open>POST /generate-pokemon\<close> with the cookie the
  browser holds, and the handler's response settles the \<open>fetch\<close>.\<close>

definition click_generate :: "sd_outcome \<Rightarrow> nat \<Rightarrow> token option \<Rightarrow> creator \<Rightarrow> creator" where
  "click_generate sd now cookie st =
     (case submit now st of
        (None, st') \<Rightarrow> st'
      | (Some p, st') \<Rightarrow>
          complete
            (deliver (fst (generate_pokemon sd
               \<lparr>cookie_authorization = cookie, req_body = pending_request p\<rparr>)))
            (pending_pokemon p) st')"

section \<open>Properties of the backend\<close>

subsection \<open>Validation before the outbound call\<close>

text \<open>
  C1. A request whose name is missing or empty, or whose \<open>animalTypes\<close> or \<open>abilities\<close> is
  missing, is answered with status 400 and the error body, and no outbound call is made.
  Whenever an outbound call is made, the name is present and not empty and both lists are
  present, and the call is the single call carrying the prompt built from them;
  conversely, a request with a name that is not empty and with both lists present, empty
  or not, is passed on in one call.
\<close>

theorem generate_validation:
  "(falsy (req_name (req_body req)) \<or> req_animalTypes (req_body req) = None
      \<or> req_abilities (req_body req) = None
    \<longrightarrow> generate_pokemon out req =
          (\<lparr>status = 400, res_body = ErrorBody ''Missing required fields''\<rparr>, []))
   \<and> (snd (generate_pokemon out req) \<noteq> []
    \<longrightarrow> (\<exists>n a b. n \<noteq> [] \<and> req_name (req_body req) = Some n
            \<and> req_animalTypes (req_body req) = Some a
            \<and> req_abilities (req_body req) = Some b
            \<and> snd (generate_pokemon out req) = [sd_call (build_prompt n a b)]))
   \<and> (req_name (req_body req) = Some n \<and> n \<noteq> []
        \<and> req_animalTypes (req_body req) = Some a \<and> req_abilities (req_body req) = Some b
    \<longrightarrow> snd (generate_pokemon out req) = [sd_call (build_prompt n a b)])"
  by (auto simp: generate_pokemon_def falsy_def Let_def split: option.splits sum.splits)

theorem generate_validation_witness:
  "generate_pokemon Rejected
     \<lparr>cookie_authorization = None,
      req_body = \<lparr>req_name = Some ''Blaze'', req_description = None,
                  req_animalTypes = None, req_abilities = Some [''Fire'']\<rparr>\<rparr>
   = (\<lparr>status = 400, res_body = ErrorBody ''Missing required fields''\<rparr>, [])
   \<and> snd (generate_pokemon Rejected
       \<lparr>cookie_authorization = None,
        req_body = \<lparr>req_name = Some ''Blaze'', req_description = None,
                    req_animalTypes = Some [''Cat''], req_abilities = Some [''Fire'']\<rparr>\<rparr>)
     = [sd_call (build_prompt ''Blaze'' [''Cat''] [''Fire''])]"
proof -
  have missing: "generate_pokemon Rejected
     \<lparr>cookie_authorization = None,
      req_body = \<lparr>req_name = Some ''Blaze'', req_description = None,
                  req_animalTypes = None, req_abilities = Some [''Fire'']\<rparr>\<rparr>
   = (\<lparr>status = 400, res_body = ErrorBody ''Missing required fields''\<rparr>, [])"
    using generate_validation [of "\<lparr>cookie_authorization = None,
      req_body = \<lparr>req_name = Some ''Blaze'', req_description = None,
                  req_animalTypes = None, req_abilities = Some [''Fire'']\<rparr>\<rparr>" Rejected,
        THEN conjunct1]
    by simp
  have "snd (generate_pokemon Rejected
       \<lparr>cookie_authorization = None,
        req_body = \<lparr>req_name = Some ''Blaze'', req_description = None,
                    req_animalTypes = Some [''Cat''], req_abilities = Some [''Fire'']\<rparr>\<rparr>)
     = [sd_call (build_prompt ''Blaze'' [''Cat''] [''Fire''])]"
    using generate_validation [of "\<lparr>cookie_authorization = None,
        req_body = \<lparr>req_name = Some ''Blaze'', req_description = None,
                    req_animalTypes = Some [''Cat''], req_abilities = Some [''Fire'']\<rparr>\<rparr>"
        Rejected "''Blaze''" "[''Cat'']" "[''Fire'']", THEN conjunct2, THEN conjunct2]
    by simp
  with missing show ?thesis by simp
qed

text \<open>With an empty list of animal types the request passes the validation: the call goes
  out and the handler answers 200.\<close>

theorem generate_empty_list_counterexample:
  "generate_pokemon (Responded 200 (JsonObject (Some [''iVBOR''])))
     \<lparr>cookie_authorization = None,
      req_body = \<lparr>req_name = Some ''Blaze'', req_description = None,
                  req_animalTypes = Some [], req_abilities = Some [''Fire'']\<rparr>\<rparr>
   = (\<lparr>status = 200,
       res_body = GenerateBody True ''data:image/png;base64,iVBOR''
         ''A pokemon creature named Blaze that combines , with Fire powers, colorful, digital art, high quality, pokemon style, fantasy art''\<rparr>,
      [sd_call ''A pokemon creature named Blaze that combines , with Fire powers, colorful, digital art, high quality, pokemon style, fantasy art''])"
  by (simp add: generate_pokemon_def falsy_def build_prompt_def sd_result_def ok_def Let_def)

subsection \<open>The generation endpoint has no session guard\<close>

text \<open>
  C2. The response of \<open>POST /generate-pokemon\<close> and the outbound calls it makes are the same
  whatever the \<open>authorization\<close> cookie of the request is: a valid token, an invalid one or
  none.
\<close>

theorem generate_ignores_cookie:
  "generate_pokemon out (req\<lparr>cookie_authorization := c\<rparr>)
   = generate_pokemon out (req\<lparr>cookie_authorization := c'\<rparr>)"
  by (simp add: generate_pokemon_def)

subsection \<open>The prompt\<close>

text \<open>
  C3. For the name Blaze, the animal types Dragon and Cat, the ability Fire and a
  description, the prompt sent to the image service is the fixed template filled with the
  name and the two joined lists, next to the fixed negative prompt; the description of the
  request is not part of it.
\<close>

theorem generate_prompt_without_description:
  "snd (generate_pokemon out
     \<lparr>cookie_authorization = None,
      req_body = \<lparr>req_name = Some ''Blaze'', req_description = Some ''breathes blue flames'',
                  req_animalTypes = Some [''Dragon'', ''Cat''], req_abilities = Some [''Fire'']\<rparr>\<rparr>)
   = [\<lparr>fetch_url = ''http://stable-diffusion.42malaga.com:7860/sdapi/v1/txt2img'',
       fetch_method = ''POST'',
       fetch_json =
         \<lparr>prompt = ''A pokemon creature named Blaze that combines Dragon and Cat, with Fire powers, colorful, digital art, high quality, pokemon style, fantasy art'',
          negative_prompt = ''ugly, blurry, low quality, distorted, disfigured, bad anatomy'',
          steps = 20, width = 512, height = 512, cfg_scale = 7,
          sampler_name = ''Euler a''\<rparr>\<rparr>]"
  by (simp add: generate_pokemon_def falsy_def build_prompt_def sd_call_def negativePrompt_def
        Let_def split: sum.splits)

text \<open>No description changes anything the handler does.\<close>

lemma generate_ignores_description:
  "generate_pokemon out (req\<lparr>req_body := (req_body req)\<lparr>req_description := d\<rparr>\<rparr>)
   = generate_pokemon out req"
  by (simp add: generate_pokemon_def)

subsection \<open>Success and failure of a generation\<close>

text \<open>
  C5. For a request with a name, at least one animal type and at least one ability, the
  handler makes exactly one outbound call. It answers 200 with the data URL of an image
  and the prompt exactly when the service answered with a status from 200 to 299 and a
  list of images that starts with that image. On a status outside that range, on an
  empty list of images, and on every other answer that is not of that kind, it answers 500
  with the error body.
\<close>

theorem generate_succeeds_iff:
  "req_name (req_body req) = Some n \<and> n \<noteq> []
     \<and> req_animalTypes (req_body req) = Some (a # as)
     \<and> req_abilities (req_body req) = Some (b # bs)
   \<longrightarrow> snd (generate_pokemon out req) = [sd_call (build_prompt n (a # as) (b # bs))]
     \<and> (fst (generate_pokemon out req)
          = \<lparr>status = 200,
             res_body = GenerateBody True (''data:image/png;base64,'' @ img)
                          (build_prompt n (a # as) (b # bs))\<rparr>
        \<longleftrightarrow> (\<exists>code rest. ok code \<and> out = Responded code (JsonObject (Some (img # rest)))))
     \<and> (\<not> ok code
        \<longrightarrow> fst (generate_pokemon (Responded code js) req)
            = \<lparr>status = 500, res_body = ErrorBody ''Failed to generate pokemon image''\<rparr>)
     \<and> fst (generate_pokemon (Responded code (JsonObject (Some []))) req)
         = \<lparr>status = 500, res_body = ErrorBody ''Failed to generate pokemon image''\<rparr>
     \<and> ((\<forall>c i rest. ok c \<longrightarrow> out \<noteq> Responded c (JsonObject (Some (i # rest))))
        \<longrightarrow> fst (generate_pokemon out req)
            = \<lparr>status = 500, res_body = ErrorBody ''Failed to generate pokemon image''\<rparr>)"
  by (auto simp: generate_pokemon_def falsy_def Let_def sd_result_def
           split: sum.splits sd_outcome.splits sd_json.splits option.splits list.splits if_splits)

theorem generate_succeeds_iff_witness:
  "fst (generate_pokemon (Responded 200 (JsonObject (Some [''iVBOR''])))
     \<lparr>cookie_authorization = None,
      req_body = \<lparr>req_name = Some ''Blaze'', req_description = None,
                  req_animalTypes = Some [''Dragon'', ''Cat''],
                  req_abilities = Some [''Fire'']\<rparr>\<rparr>)
   = \<lparr>status = 200,
      res_body = GenerateBody True ''data:image/png;base64,iVBOR''
                   (build_prompt ''Blaze'' [''Dragon'', ''Cat''] [''Fire''])\<rparr>
   \<and> generate_pokemon (Responded 500 NotJson)
     \<lparr>cookie_authorization = None,
      req_body = \<lparr>req_name = Some ''Blaze'', req_description = None,
                  req_animalTypes = Some [''Dragon'', ''Cat''],
                  req_abilities = Some [''Fire'']\<rparr>\<rparr>
   = (\<lparr>status = 500, res_body = ErrorBody ''Failed to generate pokemon image''\<rparr>,
      [sd_call (build_prompt ''Blaze'' [''Dragon'', ''Cat''] [''Fire''])])"
proof -
  have good: "fst (generate_pokemon (Responded 200 (JsonObject (Some [''iVBOR''])))
     \<lparr>cookie_authorization = None,
      req_body = \<lparr>req_name = Some ''Blaze'', req_description = None,
                  req_animalTypes = Some [''Dragon'', ''Cat''],
                  req_abilities = Some [''Fire'']\<rparr>\<rparr>)
   = \<lparr>status = 200,
      res_body = GenerateBody True ''data:image/png;base64,iVBOR''
                   (build_prompt ''Blaze'' [''Dragon'', ''Cat''] [''Fire''])\<rparr>"
    using generate_succeeds_iff [where req = "\<lparr>cookie_authorization = None,
      req_body = \<lparr>req_name = Some ''Blaze'', req_description = None,
                  req_animalTypes = Some [''Dragon'', ''Cat''],
                  req_abilities = Some [''Fire'']\<rparr>\<rparr>" and n = "''Blaze''" and a = "''Dragon''"
        and as = "[''Cat'']" and b = "''Fire''" and bs = "[]"
        and out = "Responded 200 (JsonObject (Some [''iVBOR'']))" and img = "''iVBOR''"]
    by (simp add: ok_def)
  have bad: "generate_pokemon (Responded 500 NotJson)
     \<lparr>cookie_authorization = None,
      req_body = \<lparr>req_name = Some ''Blaze'', req_description = None,
                  req_animalTypes = Some [''Dragon'', ''Cat''],
                  req_abilities = Some [''Fire'']\<rparr>\<rparr>
   = (\<lparr>status = 500, res_body = ErrorBody ''Failed to generate pokemon image''\<rparr>,
      [sd_call (build_prompt ''Blaze'' [''Dragon'', ''Cat''] [''Fire''])])"
    using generate_succeeds_iff [where req = "\<lparr>cookie_authorization = None,
      req_body = \<lparr>req_name = Some ''Blaze'', req_description = None,
                  req_animalTypes = Some [''Dragon'', ''Cat''],
                  req_abilities = Some [''Fire'']\<rparr>\<rparr>" and n = "''Blaze''" and a = "''Dragon''"
        and as = "[''Cat'']" and b = "''Fire''" and bs = "[]"
        and out = "Responded 500 NotJson" and code = 500 and js = NotJson]
    by (simp add: ok_def prod_eq_iff)
  from good bad show ?thesis by simp
qed

subsection \<open>The session guard of the profile endpoint\<close>

text \<open>
  C4. \<open>GET /user-profile\<close> without a cookie answers 401 "Not authenticated"; with a token
  that fails verification it answers 401 "Invalid token"; with a token that verifies but
  names an id without a user record it answers 401 "User not found". In every case the
  store is left as it was. A cookie whose value is the empty string counts as no cookie.
\<close>

theorem user_profile_rejects:
  "(cookie_authorization req = None
      \<longrightarrow> fst (user_profile now st req)
          = \<lparr>status = 401, res_body = ErrorBody ''Not authenticated''\<rparr>)
   \<and> (cookie_authorization req = Some tok \<and> tok \<noteq> Opaque [] \<and> getTokenPayload now tok = None
      \<longrightarrow> fst (user_profile now st req)
          = \<lparr>status = 401, res_body = ErrorBody ''Invalid token''\<rparr>)
   \<and> (cookie_authorization req = Some tok \<and> getTokenPayload now tok = Some payload
        \<and> findUserById st (payload_id payload) = None
      \<longrightarrow> fst (user_profile now st req)
          = \<lparr>status = 401, res_body = ErrorBody ''User not found''\<rparr>)
   \<and> snd (user_profile now st req) = st"
  by (auto simp: user_profile_def no_token_def Let_def getTokenPayload_def jwt_verify_def
           split: option.splits sum.splits token.splits)

theorem user_profile_rejects_witness:
  "fst (user_profile 0 initial_store \<lparr>cookie_authorization = None, req_body = no_body\<rparr>)
   = \<lparr>status = 401, res_body = ErrorBody ''Not authenticated''\<rparr>
   \<and> fst (user_profile 0 initial_store
        \<lparr>cookie_authorization =
           Some (Compact \<lparr>claim_id = 1, claim_exp = None\<rparr>
                   (HMAC ''GUESS'' \<lparr>claim_id = 1, claim_exp = None\<rparr>)),
         req_body = no_body\<rparr>)
     = \<lparr>status = 401, res_body = ErrorBody ''Invalid token''\<rparr>
   \<and> fst (user_profile 0 initial_store
        \<lparr>cookie_authorization = Some (createAccessToken 0 1), req_body = no_body\<rparr>)
     = \<lparr>status = 401, res_body = ErrorBody ''User not found''\<rparr>"
proof -
  have absent: "fst (user_profile 0 initial_store
      \<lparr>cookie_authorization = None, req_body = no_body\<rparr>)
   = \<lparr>status = 401, res_body = ErrorBody ''Not authenticated''\<rparr>"
    using user_profile_rejects [of "\<lparr>cookie_authorization = None, req_body = no_body\<rparr>"
        0 initial_store]
    by simp
  have forged: "fst (user_profile 0 initial_store
        \<lparr>cookie_authorization =
           Some (Compact \<lparr>claim_id = 1, claim_exp = None\<rparr>
                   (HMAC ''GUESS'' \<lparr>claim_id = 1, claim_exp = None\<rparr>)),
         req_body = no_body\<rparr>)
     = \<lparr>status = 401, res_body = ErrorBody ''Invalid token''\<rparr>"
    using user_profile_rejects [of "\<lparr>cookie_authorization =
           Some (Compact \<lparr>claim_id = 1, claim_exp = None\<rparr>
                   (HMAC ''GUESS'' \<lparr>claim_id = 1, claim_exp = None\<rparr>)),
         req_body = no_body\<rparr>" 0 initial_store
        "Compact \<lparr>claim_id = 1, claim_exp = None\<rparr>
           (HMAC ''GUESS'' \<lparr>claim_id = 1, claim_exp = None\<rparr>)"]
    by (simp add: getTokenPayload_def jwt_verify_def JWT_SECRET_def)
  have unknown: "fst (user_profile 0 initial_store
        \<lparr>cookie_authorization = Some (createAccessToken 0 1), req_body = no_body\<rparr>)
     = \<lparr>status = 401, res_body = ErrorBody ''User not found''\<rparr>"
    using user_profile_rejects [of
        "\<lparr>cookie_authorization = Some (createAccessToken 0 1), req_body = no_body\<rparr>"
        0 initial_store "createAccessToken 0 1" "\<lparr>payload_id = 1\<rparr>"]
    by (simp add: getTokenPayload_def jwt_verify_def createAccessToken_def jwt_sign_def
          findUserById_def initial_store_def Let_def)
  from absent forged unknown show ?thesis by simp
qed

subsection \<open>One user record per external identity\<close>

lemma find_append_first:
  "find P xs = Some x \<Longrightarrow> find P (xs @ ys) = Some x"
  by (induction xs) (auto split: if_splits)

lemma find_append_none:
  "find P xs = None \<Longrightarrow> find P (xs @ ys) = find P ys"
  by (induction xs) (auto split: if_splits)

lemma callback_finds_its_user:
  "findUserByGoogleId (snd (verify_callback s p)) (profile_id p) = Some (fst (verify_callback s p))"
  by (auto simp: verify_callback_def findUserByGoogleId_def addUser_def Let_def find_append_none
           split: option.splits)

lemma callback_keeps_found:
  "findUserByGoogleId s g = Some u \<Longrightarrow> findUserByGoogleId (snd (verify_callback s q)) g = Some u"
  by (auto simp: verify_callback_def findUserByGoogleId_def addUser_def Let_def find_append_first
           split: option.splits)

lemma run_callbacks_keeps_found:
  "findUserByGoogleId s g = Some u \<Longrightarrow> findUserByGoogleId (run_callbacks s qs) g = Some u"
  by (induction qs arbitrary: s) (auto simp: callback_keeps_found)

lemma callback_found:
  "findUserByGoogleId s (profile_id p) = Some u \<Longrightarrow> verify_callback s p = (u, s)"
  by (simp add: verify_callback_def)

lemma callback_distinct:
  "distinct (map googleId (users s)) \<Longrightarrow> distinct (map googleId (users (snd (verify_callback s p))))"
  by (auto simp: verify_callback_def findUserByGoogleId_def addUser_def Let_def find_None_iff
           split: option.splits)

lemma run_callbacks_distinct:
  "distinct (map googleId (users s)) \<Longrightarrow> distinct (map googleId (users (run_callbacks s ps)))"
  by (induction ps arbitrary: s) (auto simp: callback_distinct)

text \<open>
  C6. After a callback for a profile, a later callback for a profile with the same external
  id, with any callbacks in between, hands on the user record of the first callback and
  leaves the store as it found it. Starting from the empty store, no run of callbacks
  leaves two records with the same external id.
\<close>

theorem second_callback_resolves_first_user:
  "(profile_id p' = profile_id p
     \<longrightarrow> verify_callback (run_callbacks (snd (verify_callback s p)) qs) p'
         = (fst (verify_callback s p), run_callbacks (snd (verify_callback s p)) qs))
   \<and> distinct (map googleId (users (run_callbacks initial_store ps)))"
proof (intro conjI impI)
  assume same: "profile_id p' = profile_id p"
  have "findUserByGoogleId (run_callbacks (snd (verify_callback s p)) qs) (profile_id p')
        = Some (fst (verify_callback s p))"
    unfolding same by (rule run_callbacks_keeps_found) (rule callback_finds_its_user)
  then show "verify_callback (run_callbacks (snd (verify_callback s p)) qs) p'
         = (fst (verify_callback s p), run_callbacks (snd (verify_callback s p)) qs)"
    by (rule callback_found)
next
  show "distinct (map googleId (users (run_callbacks initial_store ps)))"
    by (rule run_callbacks_distinct) (simp add: initial_store_def)
qed

theorem second_callback_resolves_first_user_witness:
  "verify_callback
     (run_callbacks
        (snd (verify_callback initial_store
           \<lparr>profile_id = ''g-ash'', profile_displayName = ''Ash'', profile_name = None,
            photos = None, emails = None\<rparr>))
        [\<lparr>profile_id = ''g-misty'', profile_displayName = ''Misty'', profile_name = None,
          photos = None, emails = None\<rparr>])
     \<lparr>profile_id = ''g-ash'', profile_displayName = ''Ash K.'', profile_name = None,
      photos = None, emails = Some [''ash@example.org'']\<rparr>
   = (\<lparr>id_user = 1, googleId = ''g-ash'', displayName = ''Ash'', firstName = [],
       lastName = [], image_user = [], email = []\<rparr>,
      \<lparr>lastId = 3,
       users = [\<lparr>id_user = 1, googleId = ''g-ash'', displayName = ''Ash'', firstName = [],
                 lastName = [], image_user = [], email = []\<rparr>,
                \<lparr>id_user = 2, googleId = ''g-misty'', displayName = ''Misty'',
                 firstName = [], lastName = [], image_user = [], email = []\<rparr>]\<rparr>)"
proof -
  have first: "verify_callback initial_store
           \<lparr>profile_id = ''g-ash'', profile_displayName = ''Ash'', profile_name = None,
            photos = None, emails = None\<rparr>
     = (\<lparr>id_user = 1, googleId = ''g-ash'', displayName = ''Ash'', firstName = [],
         lastName = [], image_user = [], email = []\<rparr>,
        \<lparr>lastId = 2,
         users = [\<lparr>id_user = 1, googleId = ''g-ash'', displayName = ''Ash'', firstName = [],
                   lastName = [], image_user = [], email = []\<rparr>]\<rparr>)"
    by (simp add: verify_callback_def findUserByGoogleId_def initial_store_def addUser_def
          or_empty_def first_value_def Let_def)
  have between: "snd (verify_callback
        \<lparr>lastId = 2,
         users = [\<lparr>id_user = 1, googleId = ''g-ash'', displayName = ''Ash'', firstName = [],
                   lastName = [], image_user = [], email = []\<rparr>]\<rparr>
        \<lparr>profile_id = ''g-misty'', profile_displayName = ''Misty'', profile_name = None,
          photos = None, emails = None\<rparr>)
     = \<lparr>lastId = 3,
       users = [\<lparr>id_user = 1, googleId = ''g-ash'', displayName = ''Ash'', firstName = [],
                 lastName = [], image_user = [], email = []\<rparr>,
                \<lparr>id_user = 2, googleId = ''g-misty'', displayName = ''Misty'',
                 firstName = [], lastName = [], image_user = [], email = []\<rparr>]\<rparr>"
    by (simp add: verify_callback_def findUserByGoogleId_def addUser_def
          or_empty_def first_value_def Let_def)
  show ?thesis
    using second_callback_resolves_first_user [of
        "\<lparr>profile_id = ''g-ash'', profile_displayName = ''Ash K.'', profile_name = None,
          photos = None, emails = Some [''ash@example.org'']\<rparr>"
        "\<lparr>profile_id = ''g-ash'', profile_displayName = ''Ash'', profile_name = None,
          photos = None, emails = None\<rparr>"
        initial_store
        "[\<lparr>profile_id = ''g-misty'', profile_displayName = ''Misty'', profile_name = None,
           photos = None, emails = None\<rparr>]"]
    by (simp add: first between)
qed

subsection \<open>Issuing and verifying session tokens\<close>

text \<open>
  C7. Verifying the token issued for a user id gives back the payload with exactly that
  id, and whenever the verification of the library reports an error, \<open>getTokenPayload\<close>
  returns the null result instead of failing.
\<close>

theorem token_roundtrip:
  "getTokenPayload now' (createAccessToken now userId) = Some \<lparr>payload_id = userId\<rparr>
   \<and> (jwt_verify tok JWT_SECRET now' = Inl e \<longrightarrow> getTokenPayload now' tok = None)"
  by (simp add: getTokenPayload_def createAccessToken_def jwt_sign_def jwt_verify_def Let_def)

theorem token_roundtrip_witness:
  "getTokenPayload 60 (createAccessToken 0 7) = Some \<lparr>payload_id = 7\<rparr>
   \<and> jwt_verify (Opaque ''not.a.token'') JWT_SECRET 60 = Inl Malformed
   \<and> getTokenPayload 60 (Opaque ''not.a.token'') = None"
  using token_roundtrip [of 60 0 7 "Opaque ''not.a.token''" Malformed]
  by (simp add: jwt_verify_def)

text \<open>The expiry check of the library model is real: a token signed with \<open>expiresIn\<close> is
  refused from the moment it expires.\<close>

lemma expiring_token_expires:
  "jwt_verify (jwt_sign payload secret (Some d) now) secret later
   = (if now + d \<le> later then Inl TokenExpired else Inr \<lparr>payload_id = payload_id payload\<rparr>)"
  by (simp add: jwt_sign_def jwt_verify_def Let_def)

text \<open>
  C10. The token issued by \<open>createAccessToken\<close> carries no expiry claim, and it verifies
  under the unchanged secret after any amount of time.
\<close>

theorem token_never_expires:
  "createAccessToken now userId
     = Compact \<lparr>claim_id = userId, claim_exp = None\<rparr>
         (HMAC JWT_SECRET \<lparr>claim_id = userId, claim_exp = None\<rparr>)
   \<and> getTokenPayload (now + elapsed) (createAccessToken now userId)
     = Some \<lparr>payload_id = userId\<rparr>"
  by (simp add: getTokenPayload_def createAccessToken_def jwt_sign_def jwt_verify_def Let_def)

subsection \<open>A signed-in user passes the session guard\<close>

lemma ids_fresh_initial: "ids_fresh initial_store"
  by (simp add: ids_fresh_def initial_store_def)

lemma ids_fresh_callback:
  "ids_fresh s \<Longrightarrow> ids_fresh (snd (verify_callback s p))"
  by (auto simp: ids_fresh_def verify_callback_def addUser_def Let_def list_all_iff
           split: option.splits)

lemma ids_fresh_run:
  "ids_fresh s \<Longrightarrow> ids_fresh (run_callbacks s ps)"
  by (induction ps arbitrary: s) (auto simp: ids_fresh_callback)

lemma users_grow_callback:
  "set (users s) \<subseteq> set (users (snd (verify_callback s p)))"
  by (auto simp: verify_callback_def addUser_def Let_def split: option.splits)

lemma users_grow_run:
  "set (users s) \<subseteq> set (users (run_callbacks s ps))"
proof (induction ps arbitrary: s)
  case Nil
  show ?case by simp
next
  case (Cons p ps)
  from users_grow_callback [of s p] Cons.IH [of "snd (verify_callback s p)"]
  show ?case by auto
qed

lemma find_by_distinct_key:
  "distinct (map f xs) \<Longrightarrow> x \<in> set xs \<Longrightarrow> find (\<lambda>y. f y = f x) xs = Some x"
  by (induction xs) (auto simp: image_iff)

lemma find_member: "find P xs = Some x \<Longrightarrow> x \<in> set xs"
  by (induction xs) (auto split: if_splits)

lemma callback_user_stored:
  "fst (verify_callback s p) \<in> set (users (snd (verify_callback s p)))"
  by (auto simp: verify_callback_def findUserByGoogleId_def addUser_def Let_def
           dest: find_member split: option.splits)

text \<open>After the callback for a profile, and after any later callbacks, the cookie it set
  opens the profile endpoint at any later time: the answer is 200 with the user the
  callback resolved.\<close>

lemma profile_after_callback:
  assumes fresh: "ids_fresh s"
  shows "user_profile later (run_callbacks (snd (callback now s p)) qs)
           \<lparr>cookie_authorization = Some (fst (fst (callback now s p))), req_body = no_body\<rparr>
         = (\<lparr>status = 200, res_body = UserBody (fst (verify_callback s p))\<rparr>,
            run_callbacks (snd (callback now s p)) qs)"
proof -
  let ?u = "fst (verify_callback s p)"
  let ?s2 = "run_callbacks (snd (verify_callback s p)) qs"
  have tok: "fst (fst (callback now s p)) = createAccessToken now (id_user ?u)"
    and st: "snd (callback now s p) = snd (verify_callback s p)"
    by (simp_all add: callback_def Let_def split: prod.splits)
  have "ids_fresh ?s2"
    by (intro ids_fresh_run ids_fresh_callback fresh)
  moreover have "?u \<in> set (users ?s2)"
    using callback_user_stored [of s p] users_grow_run [of "snd (verify_callback s p)" qs] by auto
  ultimately have found: "findUserById ?s2 (id_user ?u) = Some ?u"
    by (simp add: findUserById_def ids_fresh_def find_by_distinct_key)
  have verified: "getTokenPayload later (createAccessToken now (id_user ?u))
                  = Some \<lparr>payload_id = id_user ?u\<rparr>"
    by (simp add: getTokenPayload_def createAccessToken_def jwt_sign_def jwt_verify_def Let_def)
  have present: "\<not> no_token (Some (createAccessToken now (id_user ?u)))"
    by (simp add: no_token_def createAccessToken_def jwt_sign_def Let_def)
  show ?thesis
    unfolding tok st using found verified present by (simp add: user_profile_def Let_def)
qed

section \<open>Properties of the frontend\<close>

subsection \<open>The selection caps\<close>

lemma length_fold_set_add: "length (fold set_add xs acc) \<le> length acc + length xs"
proof (induction xs arbitrary: acc)
  case Nil
  show ?case by simp
next
  case (Cons x xs)
  have "length (fold set_add xs (set_add x acc)) \<le> length (set_add x acc) + length xs"
    by (rule Cons.IH)
  also have "length (set_add x acc) \<le> Suc (length acc)"
    by (simp add: set_add_def)
  finally show ?case by simp
qed

lemma first_selected_bound:
  "first_selected xs = Some i \<Longrightarrow> i < length xs"
  by (induction xs arbitrary: i) (auto split: if_splits)

lemma first_selected_none:
  "first_selected xs = None \<Longrightarrow> filter snd xs = []"
  by (induction xs) (auto split: if_splits)

lemma deselect_selectedIndex:
  assumes "selectedOptions sel \<noteq> []"
  shows "\<exists>sel'. deselect (selectedIndex sel) sel = Inr sel'"
proof (cases "first_selected (options sel)")
  case None
  with assms show ?thesis
    by (simp add: selectedOptions_def first_selected_none)
next
  case (Some i)
  then show ?thesis
    by (simp add: deselect_def selectedIndex_def first_selected_bound)
qed

text \<open>The listener never throws: it reaches for \<open>selectedIndex\<close> only when some option is
  selected.\<close>

lemma change_listener_total:
  "\<exists>st'. change_listener config st = Inr st'"
proof (cases "length (selectedOptions (get_select (config_id config) st)) > maxSelections config")
  case True
  then have "selectedOptions (get_select (config_id config) st) \<noteq> []" by auto
  from deselect_selectedIndex [OF this] True show ?thesis
    by (auto simp: change_listener_def Let_def)
next
  case False
  then show ?thesis by (simp add: change_listener_def Let_def)
qed

text \<open>After a \<open>change\<close> event the recorded selection of a picker is within its cap, whatever
  the element looked like when the event fired.\<close>

lemma animal_listener_capped:
  "change_listener createAnimalTypeSelector st = Inr st' \<Longrightarrow> length (selectedAnimals st') \<le> 2"
  using length_fold_set_add [of "take 2 (selectedOptions (animal_select st))" "[]"]
  by (auto simp: change_listener_def createAnimalTypeSelector_def Let_def get_select_def
           split: sum.splits if_splits)

lemma ability_listener_capped:
  "change_listener createAbilitySelector st = Inr st' \<Longrightarrow> length (selectedAbilities st') \<le> 3"
  using length_fold_set_add [of "take 3 (selectedOptions (ability_select st))" "[]"]
  by (auto simp: change_listener_def createAbilitySelector_def Let_def get_select_def
           split: sum.splits if_splits)

text \<open>Whenever more than two animal types are selected when the event fires, the listener
  deselects the first selected option of the element, and records the first two of the
  selection it read before.\<close>

lemma deselect_first_selected:
  "first_selected xs = Some i
   \<Longrightarrow> map fst (filter snd (xs[i := (fst (xs ! i), False)])) = tl (map fst (filter snd xs))"
proof (induction xs arbitrary: i)
  case Nil
  then show ?case by simp
next
  case (Cons x xs)
  obtain v s where x: "x = (v, s)" by (cases x)
  show ?case
  proof (cases s)
    case True
    with Cons.prems x show ?thesis by simp
  next
    case False
    with Cons.prems x obtain j where j: "first_selected xs = Some j" "i = Suc j"
      by auto
    from Cons.IH [OF j(1)] False x j(2) show ?thesis by simp
  qed
qed

lemma over_cap_animal_listener:
  assumes over: "length (selectedOptions (animal_select st)) > 2"
  shows "\<exists>st'. change_listener createAnimalTypeSelector st = Inr st'
           \<and> selectedOptions (animal_select st') = tl (selectedOptions (animal_select st))
           \<and> selectedAnimals st' = fold set_add (take 2 (selectedOptions (animal_select st))) []"
proof (cases "first_selected (options (animal_select st))")
  case None
  with over show ?thesis
    by (simp add: selectedOptions_def first_selected_none)
next
  case (Some i)
  from first_selected_bound [OF Some] deselect_first_selected [OF Some] Some over
  show ?thesis
    by (simp add: change_listener_def createAnimalTypeSelector_def get_select_def put_select_def
          selectedIndex_def deselect_def selectedOptions_def showToast_def Let_def)
qed

text \<open>
  C8. On a fresh page the user selects Dragon, then Cat, then Dog in the animal picker,
  whose cap is 2. After the third \<open>change\<close> event the warning has been shown and the
  recorded selection holds two entries, Dragon and Cat; but the option the listener
  deselected is Dragon, the first selected option of the element, and not Dog, the choice
  beyond the cap: the element shows Cat and Dog as selected.
\<close>

theorem third_animal_deselects_first:
  "map_sum id (\<lambda>st. (selectedOptions (animal_select st), selectedAnimals st, toasts st))
     (picks createAnimalTypeSelector [0, 1, 2] new_creator)
   = Inr ([''Cat'', ''Dog''], [''Dragon'', ''Cat''],
          [T ''validation.maxAnimals'' [(''max'', Num 2)]])"
  by (simp add: pick_def change_listener_def createAnimalTypeSelector_def new_creator_def
        new_select_def ANIMAL_TYPES_def ABILITIES_def get_select_def put_select_def ctrl_click_def
        selectedOptions_def selectedIndex_def deselect_def showToast_def set_add_def Let_def)

subsection \<open>A failed generation leaves the gallery alone\<close>

lemma received_failure:
  "(\<forall>code url. ok code \<longrightarrow> out \<noteq> ApiResponded code (ApiObject url))
   \<Longrightarrow> \<exists>e. received out pk st = Inl e"
  by (auto simp: received_def split: api_outcome.splits api_json.splits)

lemma complete_failure:
  assumes "\<forall>code url. ok code \<longrightarrow> out \<noteq> ApiResponded code (ApiObject url)"
  shows "complete out pk st
         = st\<lparr>toasts := toasts st @ [T ''messages.generationFailed'' []],
              isGenerating := False, btn_disabled := False,
              btn_text := T ''form.generate'' [], btn_busy := False\<rparr>"
proof -
  from received_failure [OF assms] obtain e where "received out pk st = Inl e" by blast
  then show ?thesis by (simp add: complete_def showToast_def)
qed

lemma complete_success:
  "ok code \<Longrightarrow> generatedPokemons (complete (ApiResponded code (ApiObject url)) pk st)
     = pk\<lparr>imageUrl := url\<rparr> # generatedPokemons st"
  by (simp add: complete_def received_def showToast_def resetForm_def updateGallery_def)

lemma submit_keeps_gallery:
  "generatedPokemons (snd (submit now st)) = generatedPokemons st"
  by (simp add: submit_def Let_def showToast_def)

lemma generate_failure:
  assumes sub: "fst (submit now st) = Some p"
    and f: "\<forall>code url. ok code \<longrightarrow> out \<noteq> ApiResponded code (ApiObject url)"
  shows "generatedPokemons (generatePokemon now out st) = generatedPokemons st
        \<and> last (toasts (generatePokemon now out st)) = T ''messages.generationFailed'' []
        \<and> \<not> isGenerating (generatePokemon now out st)"
proof -
  have g: "generatePokemon now out st = complete out (pending_pokemon p) (snd (submit now st))"
    using sub by (auto simp: generatePokemon_def split: prod.splits)
  show ?thesis
    unfolding g by (simp add: complete_failure [OF f] submit_keeps_gallery)
qed

lemma generate_success:
  assumes sub: "fst (submit now st) = Some p" and "ok code"
  shows "generatedPokemons (generatePokemon now (ApiResponded code (ApiObject url)) st)
          = (pending_pokemon p)\<lparr>imageUrl := url\<rparr> # generatedPokemons st"
proof -
  have "generatePokemon now (ApiResponded code (ApiObject url)) st
        = complete (ApiResponded code (ApiObject url)) (pending_pokemon p) (snd (submit now st))"
    using sub by (auto simp: generatePokemon_def split: prod.splits)
  with assms show ?thesis
    by (simp add: complete_success submit_keeps_gallery)
qed

lemma gallery_changes_only_on_success:
  assumes changed: "generatedPokemons (generatePokemon now out st) \<noteq> generatedPokemons st"
  shows "\<exists>code url. ok code \<and> out = ApiResponded code (ApiObject url)"
proof (rule ccontr)
  assume "\<not> (\<exists>code url. ok code \<and> out = ApiResponded code (ApiObject url))"
  then have f: "\<forall>code url. ok code \<longrightarrow> out \<noteq> ApiResponded code (ApiObject url)" by blast
  have "generatedPokemons (generatePokemon now out st) = generatedPokemons st"
  proof (cases "fst (submit now st)")
    case None
    then have "generatePokemon now out st = snd (submit now st)"
      by (auto simp: generatePokemon_def split: prod.splits)
    then show ?thesis by (simp add: submit_keeps_gallery)
  next
    case (Some p)
    then show ?thesis
      using generate_failure [OF _ f, of now st p] by simp
  qed
  with changed show False by simp
qed

text \<open>
  C9. When the request settles as a failure (the fetch is rejected, the status is not in
  200 to 299, or the body cannot be read), the continuation of \<open>generatePokemon\<close>, from
  whatever state it resumes in, leaves the gallery list as it was, shows the failure
  message and unlocks the form; so does a whole click that passed the validations. A
  click answered with a success status and a JSON object puts the new entry in front of
  the list, and the list changes on no other answer.
\<close>

theorem failed_generation_keeps_gallery:
  "((out = ApiRejected
        \<or> (\<exists>c js. out = ApiResponded c js \<and> (\<not> ok c \<or> js = ApiNotJson \<or> js = ApiNull)))
      \<longrightarrow> generatedPokemons (complete out pk st) = generatedPokemons st
        \<and> toasts (complete out pk st) = toasts st @ [T ''messages.generationFailed'' []]
        \<and> \<not> isGenerating (complete out pk st))
   \<and> (fst (submit now st) = Some p
        \<and> (out = ApiRejected
        \<or> (\<exists>c js. out = ApiResponded c js \<and> (\<not> ok c \<or> js = ApiNotJson \<or> js = ApiNull)))
      \<longrightarrow> generatedPokemons (generatePokemon now out st) = generatedPokemons st
        \<and> last (toasts (generatePokemon now out st)) = T ''messages.generationFailed'' []
        \<and> \<not> isGenerating (generatePokemon now out st))
   \<and> (fst (submit now st) = Some p \<and> ok code
      \<longrightarrow> generatedPokemons (generatePokemon now (ApiResponded code (ApiObject url)) st)
          = (pending_pokemon p)\<lparr>imageUrl := url\<rparr> # generatedPokemons st)
   \<and> (generatedPokemons (generatePokemon now out st) \<noteq> generatedPokemons st
      \<longrightarrow> (\<exists>code url. ok code \<and> out = ApiResponded code (ApiObject url)))"
proof -
  have f: "(out = ApiRejected
        \<or> (\<exists>c js. out = ApiResponded c js \<and> (\<not> ok c \<or> js = ApiNotJson \<or> js = ApiNull)))
      \<longrightarrow> (\<forall>code url. ok code \<longrightarrow> out \<noteq> ApiResponded code (ApiObject url))"
    by auto
  have 1: "(out = ApiRejected
        \<or> (\<exists>c js. out = ApiResponded c js \<and> (\<not> ok c \<or> js = ApiNotJson \<or> js = ApiNull)))
      \<longrightarrow> generatedPokemons (complete out pk st) = generatedPokemons st
        \<and> toasts (complete out pk st) = toasts st @ [T ''messages.generationFailed'' []]
        \<and> \<not> isGenerating (complete out pk st)"
    using f by (simp add: complete_failure)
  have 2: "fst (submit now st) = Some p
        \<and> (out = ApiRejected
        \<or> (\<exists>c js. out = ApiResponded c js \<and> (\<not> ok c \<or> js = ApiNotJson \<or> js = ApiNull)))
      \<longrightarrow> generatedPokemons (generatePokemon now out st) = generatedPokemons st
        \<and> last (toasts (generatePokemon now out st)) = T ''messages.generationFailed'' []
        \<and> \<not> isGenerating (generatePokemon now out st)"
    using f generate_failure [of now st p out] by blast
  have 3: "fst (submit now st) = Some p \<and> ok code
      \<longrightarrow> generatedPokemons (generatePokemon now (ApiResponded code (ApiObject url)) st)
          = (pending_pokemon p)\<lparr>imageUrl := url\<rparr> # generatedPokemons st"
    using generate_success [of now st p code url] by blast
  have 4: "generatedPokemons (generatePokemon now out st) \<noteq> generatedPokemons st
      \<longrightarrow> (\<exists>code url. ok code \<and> out = ApiResponded code (ApiObject url))"
    using gallery_changes_only_on_success [of now out st] by blast
  from 1 2 3 4 show ?thesis by (intro conjI)
qed

theorem failed_generation_keeps_gallery_witness:
  "generatedPokemons
     (generatePokemon 1730000000123 (ApiResponded 500 (ApiObject None))
        (new_creator\<lparr>name_input := '' Blaze '', selectedAnimals := [''Dragon'', ''Cat''],
                      selectedAbilities := [''Fire'']\<rparr>)) = []
   \<and> last (toasts
       (generatePokemon 1730000000123 (ApiResponded 500 (ApiObject None))
          (new_creator\<lparr>name_input := '' Blaze '', selectedAnimals := [''Dragon'', ''Cat''],
                        selectedAbilities := [''Fire'']\<rparr>)))
     = T ''messages.generationFailed'' []
   \<and> generatedPokemons
       (generatePokemon 1730000000123 (ApiResponded 200 (ApiObject (Some ''data:image/png;base64,iVBOR'')))
          (new_creator\<lparr>name_input := '' Blaze '', selectedAnimals := [''Dragon'', ''Cat''],
                        selectedAbilities := [''Fire'']\<rparr>))
     = [\<lparr>id_pokemon = ''1730000000123'', name = ''Blaze'',
         animalTypes = [''Dragon'', ''Cat''], abilities = [''Fire''],
         imageUrl = Some ''data:image/png;base64,iVBOR'', createdAt = 1730000000123\<rparr>]"
proof -
  have sub: "fst (submit 1730000000123
        (new_creator\<lparr>name_input := '' Blaze '', selectedAnimals := [''Dragon'', ''Cat''],
                      selectedAbilities := [''Fire'']\<rparr>))
     = Some \<lparr>pending_pokemon =
               \<lparr>id_pokemon = ''1730000000123'', name = ''Blaze'',
                animalTypes = [''Dragon'', ''Cat''], abilities = [''Fire''],
                imageUrl = None, createdAt = 1730000000123\<rparr>,
             pending_request =
               \<lparr>req_name = Some ''Blaze'', req_description = Some [],
                req_animalTypes = Some [''Dragon'', ''Cat''],
                req_abilities = Some [''Fire'']\<rparr>\<rparr>"
    by (simp add: submit_def new_creator_def trim_def is_space_def Let_def)
  have empty: "generatedPokemons
        (new_creator\<lparr>name_input := '' Blaze '', selectedAnimals := [''Dragon'', ''Cat''],
                      selectedAbilities := [''Fire'']\<rparr>) = []"
    by (simp add: new_creator_def)
  have bad: "\<exists>c js. ApiResponded 500 (ApiObject None) = ApiResponded c js
                 \<and> (\<not> ok c \<or> js = ApiNotJson \<or> js = ApiNull)"
    by (simp add: ok_def)
  have good: "ok 200"
    by (simp add: ok_def)
  from sub bad empty
    failed_generation_keeps_gallery [where now = 1730000000123
      and st = "new_creator\<lparr>name_input := '' Blaze '', selectedAnimals := [''Dragon'', ''Cat''],
                      selectedAbilities := [''Fire'']\<rparr>"
      and out = "ApiResponded 500 (ApiObject None)"
      and p = "\<lparr>pending_pokemon =
               \<lparr>id_pokemon = ''1730000000123'', name = ''Blaze'',
                animalTypes = [''Dragon'', ''Cat''], abilities = [''Fire''],
                imageUrl = None, createdAt = 1730000000123\<rparr>,
             pending_request =
               \<lparr>req_name = Some ''Blaze'', req_description = Some [],
                req_animalTypes = Some [''Dragon'', ''Cat''],
                req_abilities = Some [''Fire'']\<rparr>\<rparr>"
      and code = 200 and url = "Some ''data:image/png;base64,iVBOR''"]
    good
  show ?thesis by simp
qed

subsection \<open>A failure of the image service reaches the user\<close>

lemma proxy_failure_status:
  "\<not> ok code \<Longrightarrow> status (fst (generate_pokemon (Responded code js) req)) = 400
     \<or> status (fst (generate_pokemon (Responded code js) req)) = 500"
  by (auto simp: generate_pokemon_def sd_result_def Let_def)

lemma deliver_failure:
  assumes "status res = 400 \<or> status res = 500"
  shows "\<forall>code url. ok code \<longrightarrow> deliver res \<noteq> ApiResponded code (ApiObject url)"
  using assms by (auto simp: deliver_def ok_def)

text \<open>When the image service answers with a status outside 200 to 299, a click on the
  generate button leaves the gallery list as it was.\<close>

lemma upstream_failure_reaches_user:
  assumes "\<not> ok code"
  shows "generatedPokemons (click_generate (Responded code js) now cookie st) = generatedPokemons st"
proof (cases "submit now st")
  case (Pair r st1)
  have g: "generatedPokemons st1 = generatedPokemons st"
    using Pair submit_keeps_gallery [of now st] by simp
  show ?thesis
  proof (cases r)
    case None
    with Pair g show ?thesis by (simp add: click_generate_def)
  next
    case (Some p)
    have "\<forall>c url. ok c \<longrightarrow>
        deliver (fst (generate_pokemon (Responded code js)
               \<lparr>cookie_authorization = cookie, req_body = pending_request p\<rparr>))
        \<noteq> ApiResponded c (ApiObject url)"
      by (rule deliver_failure) (rule proxy_failure_status [OF assms])
    from complete_failure [OF this] Pair Some g show ?thesis
      by (simp add: click_generate_def)
  qed
qed

end
